theory Spec2Isabelle
  imports Complex_Main
begin

section \<open>Data model of the gesture server\<close>

text \<open>
  The server of \<^verbatim>\<open>src/server/server.py\<close> receives sensor records over UDP, classifies each
  one into a gesture key and either runs the action bound to that key or hands the key to a
  running experiment. Python floats are modelled as real numbers: rounding, infinities and
  NaN are outside the model.
\<close>

datatype error = ValueError | KeyError | TypeError

text \<open>
  A vector of three floats: the dictionaries \<^verbatim>\<open>{'x': .., 'y': .., 'z': ..}\<close> of a decoded
  record and the three-element history lists, whose indices 0, 1, 2 are the components
  x, y, z.
\<close>

datatype vec3 = Vec3 (vx: real) (vy: real) (vz: real)

text \<open>The dictionary \<^verbatim>\<open>data\<close> built by \<^verbatim>\<open>get_data\<close> for one record.\<close>

record sample =
  Timestep :: real
  Action :: string
  Gyroscope :: vec3
  Acceleration :: vec3
  Rotation :: vec3

text \<open>One entry of \<^verbatim>\<open>self.settings\<close>: the dictionary with the keys Interaction and Type.\<close>

record binding =
  Interaction :: string
  Type :: string

text \<open>
  The attributes of \<^verbatim>\<open>Server\<close> that the ingestion loop, the dispatcher and the experiment
  runner read or write. \<^verbatim>\<open>__init__\<close> creates \<^verbatim>\<open>accellerometer_history\<close>, while
  \<^verbatim>\<open>get_tilt_kind\<close> assigns \<^verbatim>\<open>accelerometer_history\<close>, an attribute that does not exist
  before the first classification; both are kept. The sensor readouts show "N/A" (here
  \<open>None\<close>) until the first well-formed record. \<open>keys_sent\<close> and \<open>volume_db\<close> are the
  action sink: the key presses passed to \<^verbatim>\<open>keyboard.send\<close>, in order, and the master volume
  level of the output device. \<open>connected\<close> is the local variable of \<^verbatim>\<open>get_data\<close>.
  Widget configuration (colours, button texts, the progress bar) is left out.

  \<open>invoked\<close> is not an attribute of the program. It is the trace of the calls of the action
  methods: each method, when it runs, appends its name and the arguments it received. None of
  the methods uses its argument, so without the trace the argument of a call could not be
  observed.
\<close>

record server =
  settings :: "string \<rightharpoonup> binding"
  active_status :: bool
  test_status :: bool
  last_action_timestep :: real
  last_action :: string
  gyroscope_history :: vec3
  accellerometer_history :: vec3
  accelerometer_history :: "vec3 option"
  rotation_history :: vec3
  interaction_mode :: int
  status_var :: string
  client_var :: string
  connected :: bool
  gyro_var :: "vec3 option"
  acceleration_var :: "vec3 option"
  rotation_var :: "vec3 option"
  current_action_var :: string
  keys_sent :: "string list"
  volume_db :: real
  invoked :: "(string \<times> string list) list"

section \<open>Gesture classifier\<close>

text \<open>
  \<^verbatim>\<open>get_tilt_kind\<close>: the tilt label is one of TR (right), TL (left), TD (down), TU (up);
  afterwards the three histories are overwritten with the current vectors.
\<close>

definition get_tilt_kind :: "vec3 \<Rightarrow> vec3 \<Rightarrow> vec3 \<Rightarrow> server \<Rightarrow> string \<times> server" where
  "get_tilt_kind gyro_data acc_data rot_data s =
     (let tilt =
        (if \<bar>vx rot_data - vx (rotation_history s)\<bar> > \<bar>vy rot_data - vy (rotation_history s)\<bar>
         then (if vx rot_data - vx (rotation_history s) > 0 then ''TR'' else ''TL'')
         else (if vy rot_data - vy (rotation_history s) > 0 then ''TD'' else ''TU''))
      in (tilt, s\<lparr>gyroscope_history := gyro_data,
                  accelerometer_history := Some acc_data,
                  rotation_history := rot_data\<rparr>))"

section \<open>Action functions and the dispatch table\<close>

definition not_used :: "server \<Rightarrow> server" where
  "not_used s = s\<lparr>invoked := invoked s @ [(''not_used'', [])]\<rparr>"

definition play_pause :: "server \<Rightarrow> server" where
  "play_pause s = s\<lparr>keys_sent := keys_sent s @ [''space''],
                    invoked := invoked s @ [(''play_pause'', [])]\<rparr>"

definition previous :: "server \<Rightarrow> server" where
  "previous s = s\<lparr>keys_sent := keys_sent s @ [''left''],
                  invoked := invoked s @ [(''previous'', [])]\<rparr>"

definition next_action :: "server \<Rightarrow> server" where
  "next_action s = s\<lparr>keys_sent := keys_sent s @ [''right''],
                     invoked := invoked s @ [(''next'', [])]\<rparr>"

definition stop :: "server \<Rightarrow> server" where
  "stop s = s\<lparr>invoked := invoked s @ [(''stop'', [])]\<rparr>"

definition increase_vol :: "string \<Rightarrow> server \<Rightarrow> server" where
  "increase_vol mode s = s\<lparr>volume_db := volume_db s + 2,
                           invoked := invoked s @ [(''increase_vol'', [mode])]\<rparr>"

definition decrease_vol :: "string \<Rightarrow> server \<Rightarrow> server" where
  "decrease_vol mode s = s\<lparr>volume_db := volume_db s - 2,
                           invoked := invoked s @ [(''decrease_vol'', [mode])]\<rparr>"

definition increase_seek :: "string \<Rightarrow> server \<Rightarrow> server" where
  "increase_seek arg s = s\<lparr>invoked := invoked s @ [(''increase_seek'', [arg])]\<rparr>"

definition decrease_seek :: "string \<Rightarrow> server \<Rightarrow> server" where
  "decrease_seek arg s = s\<lparr>invoked := invoked s @ [(''decrease_seek'', [arg])]\<rparr>"

definition scroll_up :: "string \<Rightarrow> server \<Rightarrow> server" where
  "scroll_up arg s = s\<lparr>keys_sent := keys_sent s @ [''up''],
                       invoked := invoked s @ [(''scroll_up'', [arg])]\<rparr>"

definition scroll_down :: "string \<Rightarrow> server \<Rightarrow> server" where
  "scroll_down arg s = s\<lparr>keys_sent := keys_sent s @ [''down''],
                         invoked := invoked s @ [(''scroll_down'', [arg])]\<rparr>"

definition mute :: "server \<Rightarrow> server" where
  "mute s = s\<lparr>invoked := invoked s @ [(''mute'', [])]\<rparr>"

text \<open>
  A bound method of the table takes either no argument or one. Calling it with the wrong
  number of arguments raises TypeError.
\<close>

datatype action_fn = Nullary "server \<Rightarrow> server" | Unary "string \<Rightarrow> server \<Rightarrow> server"

definition call0 :: "action_fn \<Rightarrow> server \<Rightarrow> error + server" where
  "call0 f s = (case f of Nullary g \<Rightarrow> Inr (g s) | Unary g \<Rightarrow> Inl TypeError)"

definition call1 :: "action_fn \<Rightarrow> string \<Rightarrow> server \<Rightarrow> error + server" where
  "call1 f a s = (case f of Nullary g \<Rightarrow> Inl TypeError | Unary g \<Rightarrow> Inr (g a s))"

definition ACTIONS :: "string list" where
  "ACTIONS = [''Not Used'', ''Play/Pause'', ''Previous'', ''Next'', ''Stop'', ''Volume +'',
              ''Volume -'', ''Seek +'', ''Seek -'', ''Scroll UP'', ''Scroll DOWN'', ''Mute'']"

definition interaction_funcs :: "string \<rightharpoonup> action_fn \<times> bool" where
  "interaction_funcs = map_of
     [(''Not Used'',    (Nullary not_used,    False)),
      (''Play/Pause'',  (Nullary play_pause,  False)),
      (''Previous'',    (Nullary previous,    False)),
      (''Next'',        (Nullary next_action, False)),
      (''Stop'',        (Nullary stop,        False)),
      (''Volume +'',    (Unary increase_vol,  True)),
      (''Volume -'',    (Unary decrease_vol,  True)),
      (''Seek +'',      (Unary increase_seek, True)),
      (''Seek -'',      (Unary decrease_seek, True)),
      (''Scroll UP'',   (Unary scroll_up,     True)),
      (''Scroll DOWN'', (Unary scroll_down,   True)),
      (''Mute'',        (Nullary mute,        False))]"

section \<open>Dispatcher\<close>

text \<open>
  The gesture key of \<^verbatim>\<open>execute_command\<close>: the action label of the record followed by the
  tilt label.
\<close>

definition current_interaction :: "sample \<Rightarrow> server \<Rightarrow> string" where
  "current_interaction data s =
     Action data @ fst (get_tilt_kind (Gyroscope data) (Acceleration data) (Rotation data) s)"

text \<open>
  The state after the first two statements of \<^verbatim>\<open>execute_command\<close>: the histories are
  overwritten by \<^verbatim>\<open>get_tilt_kind\<close> and the key is shown in \<^verbatim>\<open>current_action_var\<close>.
\<close>

definition classified :: "sample \<Rightarrow> server \<Rightarrow> server" where
  "classified data s =
     (snd (get_tilt_kind (Gyroscope data) (Acceleration data) (Rotation data) s))
       \<lparr>current_action_var := current_interaction data s\<rparr>"

text \<open>
  \<^verbatim>\<open>execute_command\<close>: classify, show the key, then dispatch on the two mode flags. A key
  missing from \<^verbatim>\<open>settings\<close>, or an interaction name missing from the table, raises KeyError.
\<close>

definition execute_command :: "sample \<Rightarrow> server \<Rightarrow> error + server" where
  "execute_command data s =
     (let key = current_interaction data s;
          s2 = classified data s
      in if active_status s2 then
           (case settings s2 key of
              None \<Rightarrow> Inl KeyError
            | Some b \<Rightarrow>
                (case interaction_funcs (Interaction b) of
                   None \<Rightarrow> Inl KeyError
                 | Some (f, parameterized) \<Rightarrow>
                     if parameterized then call1 f (Type b) s2 else call0 f s2))
         else if test_status s2 then
           Inr (s2\<lparr>last_action_timestep := Timestep data, last_action := key\<rparr>)
         else Inr s2)"

section \<open>Sample decoder and ingestion loop\<close>

text \<open>Python's \<^verbatim>\<open>str.split(",")\<close>: the result is never empty, and an empty string gives one empty field.\<close>

fun split_comma :: "string \<Rightarrow> string list" where
  "split_comma [] = [[]]"
| "split_comma (c # cs) =
     (if c = CHR '','' then [] # split_comma cs
      else (case split_comma cs of [] \<Rightarrow> [[c]] | f # fs \<Rightarrow> (c # f) # fs))"

text \<open>\<^verbatim>\<open>message_string.replace(' ','').split(",")\<close>: only the space character is removed.\<close>

definition fields_of :: "string \<Rightarrow> string list" where
  "fields_of message_string = split_comma (filter (\<lambda>c. c \<noteq> CHR '' '') message_string)"

text \<open>
  The fields passed to \<^verbatim>\<open>float\<close>, in the order of evaluation: field 0 and fields 2 to 10.
  Only used on a list of twelve fields.
\<close>

definition numeric_fields :: "string list \<Rightarrow> string list" where
  "numeric_fields f = [f ! 0, f ! 2, f ! 3, f ! 4, f ! 5, f ! 6, f ! 7, f ! 8, f ! 9, f ! 10]"

text \<open>
  Lines 935 to 940: the built-in \<^verbatim>\<open>float\<close> is the parameter \<open>pyfloat\<close>, with \<open>None\<close>
  where the built-in raises ValueError. The first failing conversion raises.
\<close>

definition parse_record :: "(string \<Rightarrow> real option) \<Rightarrow> string list \<Rightarrow> error + sample" where
  "parse_record pyfloat f =
     (if None \<in> set (map pyfloat (numeric_fields f)) then Inl ValueError
      else Inr \<lparr>Timestep = the (pyfloat (f ! 0)),
                Action = f ! 1,
                Gyroscope = Vec3 (the (pyfloat (f ! 2))) (the (pyfloat (f ! 3))) (the (pyfloat (f ! 4))),
                Acceleration = Vec3 (the (pyfloat (f ! 5))) (the (pyfloat (f ! 6))) (the (pyfloat (f ! 7))),
                Rotation = Vec3 (the (pyfloat (f ! 8))) (the (pyfloat (f ! 9))) (the (pyfloat (f ! 10)))\<rparr>)"

text \<open>
  One iteration of the \<^verbatim>\<open>while True\<close> loop of \<^verbatim>\<open>get_data\<close> on a received datagram, given as
  its decoded text and the sender's address. The handler of the \<^verbatim>\<open>try\<close> statement catches
  KeyboardInterrupt and SystemExit only, so a ValueError of \<^verbatim>\<open>float\<close> and a KeyError of
  \<^verbatim>\<open>execute_command\<close> leave the loop: the result is \<open>Inl\<close>.
\<close>

definition get_data_step ::
  "(string \<Rightarrow> real option) \<Rightarrow> string \<times> string \<Rightarrow> server \<Rightarrow> error + server" where
  "get_data_step pyfloat msg s =
     (let message_string = fst msg; address = snd msg in
      if message_string = [] then Inr s
      else
        let s1 = (if \<not> connected s
                  then s\<lparr>status_var := ''Receiving Data'', client_var := address, connected := True\<rparr>
                  else s);
            f = fields_of message_string
        in if length f \<noteq> 12 then Inr s1
           else (case parse_record pyfloat f of
                   Inl e \<Rightarrow> Inl e
                 | Inr data \<Rightarrow>
                     execute_command data
                       (s1\<lparr>gyro_var := Some (Gyroscope data),
                           acceleration_var := Some (Acceleration data),
                           rotation_var := Some (Rotation data)\<rparr>)))"

text \<open>
  The loop over the datagrams received so far: \<open>Inr\<close> is the state in which the loop waits
  for the next datagram, \<open>Inl\<close> the exception that ended it.
\<close>

fun get_data_loop ::
  "(string \<Rightarrow> real option) \<Rightarrow> (string \<times> string) list \<Rightarrow> server \<Rightarrow> error + server" where
  "get_data_loop pyfloat [] s = Inr s"
| "get_data_loop pyfloat (m # ms) s =
     (case get_data_step pyfloat m s of
        Inl e \<Rightarrow> Inl e
      | Inr s' \<Rightarrow> get_data_loop pyfloat ms s')"

definition get_data ::
  "(string \<Rightarrow> real option) \<Rightarrow> (string \<times> string) list \<Rightarrow> server \<Rightarrow> error + server" where
  "get_data pyfloat ms s = get_data_loop pyfloat ms (s\<lparr>connected := False\<rparr>)"

subsection \<open>A decimal instance of the float parser\<close>

text \<open>
  The built-in \<^verbatim>\<open>float\<close> on plain decimal literals: an optional sign, digits and at most one
  point, with at least one digit. The built-in also accepts exponents, inf, nan and
  underscores; those are not covered, and this instance is only used on concrete records.
\<close>

definition digit_of :: "char \<Rightarrow> nat option" where
  "digit_of = map_of (zip ''0123456789'' [0, 1, 2, 3, 4, 5, 6, 7, 8, 9])"

fun digits_value :: "string \<Rightarrow> nat option" where
  "digits_value [] = Some 0"
| "digits_value (c # cs) =
     (case digit_of c of
        None \<Rightarrow> None
      | Some d \<Rightarrow> (case digits_value cs of
                     None \<Rightarrow> None
                   | Some v \<Rightarrow> Some (d * 10 ^ length cs + v)))"

definition unsigned_decimal :: "string \<Rightarrow> real option" where
  "unsigned_decimal str =
     (let ip = takeWhile (\<lambda>c. c \<noteq> CHR ''.'') str;
          fp = drop 1 (dropWhile (\<lambda>c. c \<noteq> CHR ''.'') str)
      in if ip = [] \<and> fp = [] then None
         else (case digits_value ip of
                 None \<Rightarrow> None
               | Some i \<Rightarrow> (case digits_value fp of
                              None \<Rightarrow> None
                            | Some k \<Rightarrow> Some (real i + real k / 10 ^ length fp))))"

definition decimal_float :: "string \<Rightarrow> real option" where
  "decimal_float str =
     (case str of
        [] \<Rightarrow> None
      | c # cs \<Rightarrow>
          if c = CHR ''-'' then map_option uminus (unsigned_decimal cs)
          else if c = CHR ''+'' then unsigned_decimal cs
          else unsigned_decimal str)"

subsection \<open>Initial state\<close>

text \<open>The default settings written by \<^verbatim>\<open>populate_settings\<close> when no settings file exists.\<close>

definition default_binding :: binding where
  "default_binding = \<lparr>Interaction = ''Not Used'', Type = ''Not Used''\<rparr>"

definition default_settings :: "string \<rightharpoonup> binding" where
  "default_settings = map_of (map (\<lambda>k. (k, default_binding))
     [''LSTU'', ''LSTD'', ''LSTL'', ''LSTR'', ''RSTU'', ''RSTD'', ''RSTL'', ''RSTR'',
      ''TSTU'', ''TSTD'', ''TSTL'', ''TSTR'', ''BSTU'', ''BSTD'', ''BSTL'', ''BSTR''])"

text \<open>
  The state after \<^verbatim>\<open>__init__\<close>, for the settings loaded at startup and the volume level
  of the output device.
\<close>

definition init :: "(string \<rightharpoonup> binding) \<Rightarrow> real \<Rightarrow> server" where
  "init st vol =
     \<lparr>settings = st, active_status = False, test_status = False,
      last_action_timestep = 0, last_action = [],
      gyroscope_history = Vec3 0 0 0, accellerometer_history = Vec3 0 0 0,
      accelerometer_history = None, rotation_history = Vec3 0 0 0,
      interaction_mode = 1,
      status_var = ''Not Connected'', client_var = ''Not Connected'', connected = False,
      gyro_var = None, acceleration_var = None, rotation_var = None,
      current_action_var = ''N/A'', keys_sent = [], volume_db = vol, invoked = []\<rparr>"

section \<open>Mode controller\<close>

text \<open>
  The two mode flags are written in three places: \<^verbatim>\<open>toggle_activation\<close> (the button of the
  user), the first statement of \<^verbatim>\<open>start_experiment\<close> and the statement after its loop.
\<close>

definition toggle_activation :: "server \<Rightarrow> server" where
  "toggle_activation s =
     (if active_status s then s\<lparr>active_status := False\<rparr> else s\<lparr>active_status := True\<rparr>)"

definition experiment_begin :: "server \<Rightarrow> server" where
  "experiment_begin s = s\<lparr>test_status := True\<rparr>"

definition experiment_end :: "server \<Rightarrow> server" where
  "experiment_end s = s\<lparr>test_status := False\<rparr>"

text \<open>
  The user and the experiment thread interleave freely: a run of the mode controller is a
  sequence of these events, each an atomic assignment.
\<close>

datatype event = Toggle | Experiment_starts | Experiment_finishes

fun mode_step :: "event \<Rightarrow> server \<Rightarrow> server" where
  "mode_step Toggle s = toggle_activation s"
| "mode_step Experiment_starts s = experiment_begin s"
| "mode_step Experiment_finishes s = experiment_end s"

fun mode_run :: "event list \<Rightarrow> server \<Rightarrow> server" where
  "mode_run [] s = s"
| "mode_run (e # es) s = mode_run es (mode_step e s)"

section \<open>Experiment runner\<close>

text \<open>
  The experiment thread sees the rest of the system through three things: the clock, the
  gesture keys that the ingestion thread stores in \<^verbatim>\<open>last_action\<close>, and the random choice.
  \<open>clock w k\<close> is the value of the \<open>k\<close>-th call of \<^verbatim>\<open>time.time()\<close>, \<open>arrival w k\<close> the key
  stored last before that call since the call before it, if any, and \<open>pick w i\<close> selects the
  element that \<^verbatim>\<open>random.choice\<close> returns in trial \<open>i\<close>. One loop iteration is taken as atomic
  with respect to the ingestion thread.
\<close>

record world =
  clock :: "nat \<Rightarrow> real"
  arrival :: "nat \<Rightarrow> string option"
  pick :: "nat \<Rightarrow> nat"

definition stored :: "string \<Rightarrow> string option \<Rightarrow> string" where
  "stored la a = (case a of None \<Rightarrow> la | Some k \<Rightarrow> k)"

text \<open>The keys of \<^verbatim>\<open>self.interaction_widgets\<close>, in the order of insertion.\<close>

definition interaction_widgets :: "string list" where
  "interaction_widgets = [''Play/Pause'', ''Next'', ''Previous'', ''Stop'', ''Mute'',
                          ''btn2'', ''btn3'', ''volume_required'', ''seek_required'']"

definition choice :: "'a list \<Rightarrow> nat \<Rightarrow> 'a" where
  "choice xs k = xs ! (k mod length xs)"

text \<open>Python's \<^verbatim>\<open>round(x, 3)\<close> on the real value: to the nearest thousandth, ties to even.\<close>

definition round_half_even :: "real \<Rightarrow> int" where
  "round_half_even x =
     (if x - of_int \<lfloor>x\<rfloor> < 1 / 2 then \<lfloor>x\<rfloor>
      else if x - of_int \<lfloor>x\<rfloor> > 1 / 2 then \<lfloor>x\<rfloor> + 1
      else if even \<lfloor>x\<rfloor> then \<lfloor>x\<rfloor> else \<lfloor>x\<rfloor> + 1)"

definition py_round3 :: "real \<Rightarrow> real" where
  "py_round3 x = of_int (round_half_even (x * 1000)) / 1000"

text \<open>
  The \<^verbatim>\<open>while\<close> loop of one trial, entered at the clock reading \<open>n\<close> of its test with
  \<^verbatim>\<open>last_action\<close> holding \<open>la\<close>. \<^verbatim>\<open>terminate\<close> is never set, so the loop ends by the
  \<^verbatim>\<open>break\<close> of a match or by the clock. The result is \<^verbatim>\<open>found\<close>, the value left in
  \<^verbatim>\<open>last_action\<close> and the index of the next clock reading; \<open>None\<close> is a loop that never
  ends.
\<close>

partial_function (option) poll_loop ::
  "world \<Rightarrow> (string \<rightharpoonup> binding) \<Rightarrow> string \<Rightarrow> real \<Rightarrow> nat \<Rightarrow> string \<Rightarrow>
     (error + bool \<times> string \<times> nat) option" where
  "poll_loop w st interaction start n la =
     (if clock w n - start \<le> 3 then
        (if stored la (arrival w n) = [] then poll_loop w st interaction start (Suc n) []
         else (case st (stored la (arrival w n)) of
                 None \<Rightarrow> Some (Inl KeyError)
               | Some b \<Rightarrow>
                   if Interaction b = interaction then Some (Inr (True, [], Suc n))
                   else poll_loop w st interaction start (Suc n) []))
      else Some (Inr (False, stored la (arrival w n), Suc n)))"

declare poll_loop.simps [code]

text \<open>A row of \<^verbatim>\<open>experiment_results\<close>: required interaction, rounded time, found, mode.\<close>

type_synonym row = "string \<times> real \<times> bool \<times> int"

text \<open>
  The body of the \<^verbatim>\<open>for\<close> loop: trial \<open>i\<close>, whose first clock reading has index \<open>n\<close>. The
  counters \<^verbatim>\<open>correct_answers\<close> and \<^verbatim>\<open>mistakes\<close> are only printed and are left out.
\<close>

definition run_trial ::
  "world \<Rightarrow> (string \<rightharpoonup> binding) \<Rightarrow> int \<Rightarrow> nat \<Rightarrow> nat \<Rightarrow> string \<Rightarrow>
     (error + row \<times> string \<times> nat) option" where
  "run_trial w st mode i n la =
     (let interaction = choice interaction_widgets (pick w i);
          start = clock w n
      in case poll_loop w st interaction start (Suc n) (stored la (arrival w n)) of
           None \<Rightarrow> None
         | Some (Inl e) \<Rightarrow> Some (Inl e)
         | Some (Inr (found, la1, m)) \<Rightarrow>
             Some (Inr ((interaction, py_round3 (clock w m - start), found, mode),
                        stored la1 (arrival w m), Suc m)))"

fun trials ::
  "world \<Rightarrow> (string \<rightharpoonup> binding) \<Rightarrow> int \<Rightarrow> nat list \<Rightarrow> row list \<Rightarrow> nat \<Rightarrow> string \<Rightarrow>
     (error + row list \<times> string \<times> nat) option" where
  "trials w st mode [] experiment_results n la = Some (Inr (experiment_results, la, n))"
| "trials w st mode (i # is) experiment_results n la =
     (case run_trial w st mode i n la of
        None \<Rightarrow> None
      | Some (Inl e) \<Rightarrow> Some (Inl e)
      | Some (Inr (result, la', n')) \<Rightarrow>
          trials w st mode is (experiment_results @ [result]) n' la')"

text \<open>
  \<^verbatim>\<open>start_experiment\<close>: ten trials between the two assignments of \<^verbatim>\<open>test_status\<close>. The rows
  are what is written to the file. An exception leaves the thread before the flag is reset.
\<close>

definition start_experiment :: "world \<Rightarrow> server \<Rightarrow> (error + row list \<times> server) option" where
  "start_experiment w s =
     (case trials w (settings s) (interaction_mode s) [0..<10] [] 0 (last_action s) of
        None \<Rightarrow> None
      | Some (Inl e) \<Rightarrow> Some (Inl e)
      | Some (Inr (experiment_results, la, n)) \<Rightarrow>
          Some (Inr (experiment_results,
                     experiment_end ((experiment_begin s)\<lparr>last_action := la\<rparr>))))"

subsection \<open>Two concrete worlds\<close>

text \<open>
  A clock that advances by a twentieth of a second per reading and trials that take the
  widgets in order; in the first world no gesture arrives, in the second the key
  LeftScreenTD, which is not a key of the default settings, arrives before the first poll.
\<close>

definition steady_clock :: "nat \<Rightarrow> real" where
  "steady_clock k = real k / 20"


definition unknown_key_arrival :: "nat \<Rightarrow> string option" where
  "unknown_key_arrival k = (if k = 1 then Some ''LeftScreenTD'' else None)"

definition pick_in_order :: "nat \<Rightarrow> nat" where
  "pick_in_order i = i"


definition unknown_key_world :: world where
  "unknown_key_world =
     \<lparr>clock = steady_clock, arrival = unknown_key_arrival, pick = pick_in_order\<rparr>"

section \<open>Properties of the classifier\<close>

lemma get_tilt_kind_tilt:
  "fst (get_tilt_kind g a r s) =
     (if \<bar>vx r - vx (rotation_history s)\<bar> > \<bar>vy r - vy (rotation_history s)\<bar>
      then (if vx r - vx (rotation_history s) > 0 then ''TR'' else ''TL'')
      else (if vy r - vy (rotation_history s) > 0 then ''TD'' else ''TU''))"
  by (simp add: get_tilt_kind_def Let_def)

text \<open>
  Claim C3. With dx the rotation-x delta and dy the rotation-y delta of a sample against the
  stored history: when the magnitude of dx is strictly larger, the tilt is TR (right) for a
  positive dx and TL (left) otherwise; when the magnitude of dy is larger or the two are
  equal, the tilt is TD (down) for a positive dy and TU (up) otherwise.
\<close>

theorem tilt_by_dominant_axis:
  fixes g a r :: vec3 and s :: server
  defines "dx \<equiv> vx r - vx (rotation_history s)"
      and "dy \<equiv> vy r - vy (rotation_history s)"
  shows "(\<bar>dx\<bar> > \<bar>dy\<bar> \<and> dx > 0 \<longrightarrow> fst (get_tilt_kind g a r s) = ''TR'') \<and>
         (\<bar>dx\<bar> > \<bar>dy\<bar> \<and> \<not> dx > 0 \<longrightarrow> fst (get_tilt_kind g a r s) = ''TL'') \<and>
         ((\<bar>dy\<bar> > \<bar>dx\<bar> \<or> \<bar>dx\<bar> = \<bar>dy\<bar>) \<and> dy > 0 \<longrightarrow> fst (get_tilt_kind g a r s) = ''TD'') \<and>
         ((\<bar>dy\<bar> > \<bar>dx\<bar> \<or> \<bar>dx\<bar> = \<bar>dy\<bar>) \<and> \<not> dy > 0 \<longrightarrow> fst (get_tilt_kind g a r s) = ''TU'')"
  unfolding dx_def dy_def get_tilt_kind_tilt by auto

text \<open>
  The four branches at concrete rotations against the zero history, the third one a tie of
  magnitudes.
\<close>


theorem tilt_by_dominant_axis_witness:
  "fst (get_tilt_kind (Vec3 1 1 1) (Vec3 0 0 0) (Vec3 4 1 0) (init default_settings 0)) = ''TR'' \<and>
   fst (get_tilt_kind (Vec3 1 1 1) (Vec3 0 0 0) (Vec3 (- 4) 1 0) (init default_settings 0)) = ''TL'' \<and>
   fst (get_tilt_kind (Vec3 1 1 1) (Vec3 0 0 0) (Vec3 (- 5) 5 0) (init default_settings 0)) = ''TD'' \<and>
   fst (get_tilt_kind (Vec3 1 1 1) (Vec3 0 0 0) (Vec3 0 0 0) (init default_settings 0)) = ''TU''"
  using tilt_by_dominant_axis [where r = "Vec3 4 1 0" and s = "init default_settings 0"]
        tilt_by_dominant_axis [where r = "Vec3 (- 4) 1 0" and s = "init default_settings 0"]
        tilt_by_dominant_axis [where r = "Vec3 (- 5) 5 0" and s = "init default_settings 0"]
        tilt_by_dominant_axis [where r = "Vec3 0 0 0" and s = "init default_settings 0"]
  by (simp add: init_def)

text \<open>
  Claim C10. The gesture key depends only on the action label of the sample, the x and y
  components of its rotation and the x and y components of the stored rotation history:
  two samples and states that agree on these, whatever their gyroscope and acceleration
  vectors, rotation z and other histories, get the same key.
\<close>


theorem gesture_key_depends_on_rotation_xy:
  assumes "Action d1 = Action d2"
    and "vx (Rotation d1) = vx (Rotation d2)" and "vy (Rotation d1) = vy (Rotation d2)"
    and "vx (rotation_history s1) = vx (rotation_history s2)"
    and "vy (rotation_history s1) = vy (rotation_history s2)"
  shows "current_interaction d1 s1 = current_interaction d2 s2"
  using assms by (simp add: current_interaction_def get_tilt_kind_tilt)

section \<open>Properties of the dispatcher\<close>

lemma classified_frame:
  "settings (classified data s) = settings s"
  "active_status (classified data s) = active_status s"
  "test_status (classified data s) = test_status s"
  "last_action (classified data s) = last_action s"
  "last_action_timestep (classified data s) = last_action_timestep s"
  "keys_sent (classified data s) = keys_sent s"
  "volume_db (classified data s) = volume_db s"
  "invoked (classified data s) = invoked s"
  "current_action_var (classified data s) = current_interaction data s"
  "rotation_history (classified data s) = Rotation data"
  by (simp_all add: classified_def get_tilt_kind_def Let_def)

lemma execute_command_live:
  "active_status s \<Longrightarrow>
   execute_command data s =
     (case settings s (current_interaction data s) of
        None \<Rightarrow> Inl KeyError
      | Some b \<Rightarrow>
          (case interaction_funcs (Interaction b) of
             None \<Rightarrow> Inl KeyError
           | Some (f, parameterized) \<Rightarrow>
               if parameterized then call1 f (Type b) (classified data s)
               else call0 f (classified data s)))"
  by (simp add: execute_command_def Let_def classified_frame)

lemma execute_command_not_live:
  "\<not> active_status s \<Longrightarrow>
   execute_command data s =
     (if test_status s
      then Inr ((classified data s)\<lparr>last_action_timestep := Timestep data,
                                    last_action := current_interaction data s\<rparr>)
      else Inr (classified data s))"
  by (simp add: execute_command_def Let_def classified_frame)

lemma action_table_cases:
  assumes "interaction_funcs name = Some (f, flag)"
  shows "(flag \<and> f \<in> {Unary increase_vol, Unary decrease_vol, Unary increase_seek,
                       Unary decrease_seek, Unary scroll_up, Unary scroll_down}) \<or>
         (\<not> flag \<and> f \<in> {Nullary not_used, Nullary play_pause, Nullary previous,
                         Nullary next_action, Nullary stop, Nullary mute})"
  using assms by (auto simp: interaction_funcs_def split: if_splits)

lemma unary_frame:
  assumes "g \<in> {increase_vol, decrease_vol, increase_seek, decrease_seek, scroll_up, scroll_down}"
  shows "active_status (g a s) = active_status s \<and> test_status (g a s) = test_status s \<and>
         last_action (g a s) = last_action s \<and>
         last_action_timestep (g a s) = last_action_timestep s"
  using assms
  by (auto simp: increase_vol_def decrease_vol_def increase_seek_def decrease_seek_def
        scroll_up_def scroll_down_def)

lemma nullary_frame:
  assumes "g \<in> {not_used, play_pause, previous, next_action, stop, mute}"
  shows "active_status (g s) = active_status s \<and> test_status (g s) = test_status s \<and>
         last_action (g s) = last_action s \<and>
         last_action_timestep (g s) = last_action_timestep s"
  using assms
  by (auto simp: not_used_def play_pause_def previous_def next_action_def stop_def mute_def)

lemma live_dispatch_frame:
  assumes "active_status s" and "execute_command data s = Inr s'"
  shows "active_status s' = active_status s \<and> test_status s' = test_status s \<and>
         last_action s' = last_action s \<and> last_action_timestep s' = last_action_timestep s"
proof -
  from assms obtain b where b: "settings s (current_interaction data s) = Some b"
    by (cases "settings s (current_interaction data s)") (simp_all add: execute_command_live)
  with assms obtain p where p: "interaction_funcs (Interaction b) = Some p"
    by (cases "interaction_funcs (Interaction b)") (simp_all add: execute_command_live)
  obtain f flag where fp: "p = (f, flag)" by (cases p)
  from p fp have f: "interaction_funcs (Interaction b) = Some (f, flag)" by simp
  from assms b f have r: "(if flag then call1 f (Type b) (classified data s)
             else call0 f (classified data s)) = Inr s'"
    by (simp add: execute_command_live)
  from action_table_cases [OF f] show ?thesis
  proof
    assume a: "flag \<and> f \<in> {Unary increase_vol, Unary decrease_vol, Unary increase_seek,
                       Unary decrease_seek, Unary scroll_up, Unary scroll_down}"
    then obtain g where g: "f = Unary g"
      "g \<in> {increase_vol, decrease_vol, increase_seek, decrease_seek, scroll_up, scroll_down}"
      by auto
    from r a g have "s' = g (Type b) (classified data s)" by (simp add: call1_def)
    with unary_frame [OF g(2)] show ?thesis by (simp add: classified_frame)
  next
    assume a: "\<not> flag \<and> f \<in> {Nullary not_used, Nullary play_pause, Nullary previous,
                         Nullary next_action, Nullary stop, Nullary mute}"
    then obtain g where g: "f = Nullary g"
      "g \<in> {not_used, play_pause, previous, next_action, stop, mute}"
      by auto
    from r a g have "s' = g (classified data s)" by (simp add: call0_def)
    with nullary_frame [OF g(2)] show ?thesis by (simp add: classified_frame)
  qed
qed

text \<open>
  Claim C2 states that the two mode flags are never both true. Nothing in the code prevents
  it: after the user enables interaction and an experiment starts, both are set.
\<close>


theorem both_flags_enabled_counterexample:
  "active_status (mode_run [Toggle, Experiment_starts] (init default_settings 0)) \<and>
   test_status (mode_run [Toggle, Experiment_starts] (init default_settings 0))"
  by (simp add: toggle_activation_def experiment_begin_def init_def)

text \<open>
  Claim C2, amended. What holds in every state, so in every reachable one, is exclusion
  of the effects: \<^verbatim>\<open>execute_command\<close> tests \<^verbatim>\<open>active_status\<close> first and \<^verbatim>\<open>test_status\<close>
  only otherwise. It never changes a flag; under live dispatch the experiment's
  \<^verbatim>\<open>last_action\<close> and \<^verbatim>\<open>last_action_timestep\<close> stay as they are, and without live dispatch
  the action sink stays as it is.
\<close>


theorem mode_effects_exclusive:
  assumes "execute_command data s = Inr s'"
  shows "active_status s' = active_status s \<and> test_status s' = test_status s \<and>
         (active_status s \<longrightarrow>
            last_action s' = last_action s \<and> last_action_timestep s' = last_action_timestep s) \<and>
         (\<not> active_status s \<longrightarrow> keys_sent s' = keys_sent s \<and> volume_db s' = volume_db s)"
proof (cases "active_status s")
  case False
  with assms show ?thesis
    by (auto simp: execute_command_not_live classified_frame split: if_splits)
next
  case True
  with live_dispatch_frame [OF True assms] show ?thesis by simp
qed

text \<open>
  Claim C7. Under live dispatch, a gesture key bound to "Not Used" leaves the action sink
  unchanged: no key press is sent and the volume is not touched.
\<close>


theorem not_used_leaves_sink:
  assumes "active_status s"
    and "settings s (current_interaction data s) = Some b"
    and "Interaction b = ''Not Used''"
  shows "\<exists>s'. execute_command data s = Inr s' \<and>
              keys_sent s' = keys_sent s \<and> volume_db s' = volume_db s"
  using assms
  by (simp add: execute_command_live interaction_funcs_def call0_def not_used_def
        classified_frame)

text \<open>
  Two samples with the same action label and the same rotation x and y, but different
  gyroscope, acceleration and rotation z, classified against histories that differ in the
  gyroscope history and in rotation z.
\<close>

theorem gesture_key_depends_on_rotation_xy_witness:
  "current_interaction
     \<lparr>Timestep = 1, Action = ''LS'', Gyroscope = Vec3 1 2 3, Acceleration = Vec3 4 5 6,
      Rotation = Vec3 0 5 7\<rparr>
     (init default_settings 0) =
   current_interaction
     \<lparr>Timestep = 2, Action = ''LS'', Gyroscope = Vec3 9 9 9, Acceleration = Vec3 0 0 1,
      Rotation = Vec3 0 5 (- 3)\<rparr>
     ((init default_settings 0)\<lparr>gyroscope_history := Vec3 8 8 8, rotation_history := Vec3 0 0 4\<rparr>)"
  by (rule gesture_key_depends_on_rotation_xy) (simp_all add: init_def)

text \<open>
  With both flags set and the key LSTD bound to Play/Pause, a sample is dispatched live
  and the experiment's \<^verbatim>\<open>last_action\<close> stays empty.
\<close>

theorem mode_effects_exclusive_witness:
  "\<exists>s'. execute_command
          \<lparr>Timestep = 1, Action = ''LS'', Gyroscope = Vec3 1 1 1, Acceleration = Vec3 0 0 0,
           Rotation = Vec3 0 5 0\<rparr>
          (mode_run [Toggle, Experiment_starts]
             (init (default_settings(''LSTD'' \<mapsto> \<lparr>Interaction = ''Play/Pause'', Type = ''Constant''\<rparr>)) 0))
        = Inr s' \<and>
        active_status s' \<and> test_status s' \<and> last_action s' = [] \<and> last_action_timestep s' = 0"
proof -
  let ?d = "\<lparr>Timestep = 1, Action = ''LS'', Gyroscope = Vec3 1 1 1, Acceleration = Vec3 0 0 0,
           Rotation = Vec3 0 5 0\<rparr>"
  let ?s = "mode_run [Toggle, Experiment_starts]
             (init (default_settings(''LSTD'' \<mapsto> \<lparr>Interaction = ''Play/Pause'', Type = ''Constant''\<rparr>)) 0)"
  have s: "active_status ?s" "test_status ?s" "last_action ?s = []" "last_action_timestep ?s = 0"
    by (simp_all add: toggle_activation_def experiment_begin_def init_def)
  have "\<exists>s'. execute_command ?d ?s = Inr s'"
    by (simp add: execute_command_live s toggle_activation_def experiment_begin_def init_def
          current_interaction_def get_tilt_kind_tilt interaction_funcs_def call0_def)
  then obtain s' where e: "execute_command ?d ?s = Inr s'" ..
  from mode_effects_exclusive [OF e] s e show ?thesis by simp
qed

text \<open>
  With the default settings, where every key is bound to Not Used, a live sample leaves
  the sink as it was.
\<close>

theorem not_used_leaves_sink_witness:
  "\<exists>s'. execute_command
          \<lparr>Timestep = 1, Action = ''LS'', Gyroscope = Vec3 1 1 1, Acceleration = Vec3 0 0 0,
           Rotation = Vec3 0 5 0\<rparr>
          (toggle_activation (init default_settings 7)) = Inr s' \<and>
        keys_sent s' = [] \<and> volume_db s' = 7"
proof -
  let ?d = "\<lparr>Timestep = 1, Action = ''LS'', Gyroscope = Vec3 1 1 1, Acceleration = Vec3 0 0 0,
           Rotation = Vec3 0 5 0\<rparr>"
  let ?s = "toggle_activation (init default_settings 7)"
  have a: "active_status ?s" by (simp add: toggle_activation_def init_def)
  have k: "current_interaction ?d ?s = ''LSTD''"
    by (simp add: current_interaction_def get_tilt_kind_tilt toggle_activation_def init_def)
  have b: "settings ?s (current_interaction ?d ?s) = Some default_binding"
    unfolding k by (simp add: toggle_activation_def init_def default_settings_def)
  have n: "Interaction default_binding = ''Not Used''" by (simp add: default_binding_def)
  from not_used_leaves_sink [OF a b n] show ?thesis
    by (simp add: toggle_activation_def init_def)
qed

lemma unary_invoked:
  assumes "g \<in> {increase_vol, decrease_vol, increase_seek, decrease_seek, scroll_up, scroll_down}"
  shows "\<exists>name. invoked (g a s) = invoked s @ [(name, [a])]"
  using assms
  by (auto simp: increase_vol_def decrease_vol_def increase_seek_def decrease_seek_def
        scroll_up_def scroll_down_def)

lemma nullary_invoked:
  assumes "g \<in> {not_used, play_pause, previous, next_action, stop, mute}"
  shows "\<exists>name. invoked (g s) = invoked s @ [(name, [])]"
  using assms
  by (auto simp: not_used_def play_pause_def previous_def next_action_def stop_def mute_def)

text \<open>
  Claim C8. The second component of a table entry is true for Volume +, Volume -, Seek +,
  Seek -, Scroll UP and Scroll DOWN and false for the six other names of \<^verbatim>\<open>ACTIONS\<close>,
  which are all the keys of the table. Live dispatch tests this component first: when it is
  false the function is a method without argument and is called with none, when it is true
  the function takes one argument and is called with the Type of the binding. The trace
  shows what the method received: one call, with the Type of the binding as its only
  argument or with no argument.
\<close>

theorem parameterized_flag_gates_argument:
  "map (\<lambda>a. map_option snd (interaction_funcs a)) ACTIONS =
     [Some False, Some False, Some False, Some False, Some False, Some True,
      Some True, Some True, Some True, Some True, Some True, Some False] \<and>
   dom interaction_funcs = set ACTIONS \<and>
   (active_status s \<and> settings s (current_interaction data s) = Some b \<and>
    interaction_funcs (Interaction b) = Some (f, flag) \<longrightarrow>
      (flag \<longrightarrow> (\<exists>g name. f = Unary g \<and>
                       execute_command data s = Inr (g (Type b) (classified data s)) \<and>
                       invoked (g (Type b) (classified data s)) =
                         invoked s @ [(name, [Type b])])) \<and>
      (\<not> flag \<longrightarrow> (\<exists>g name. f = Nullary g \<and>
                         execute_command data s = Inr (g (classified data s)) \<and>
                         invoked (g (classified data s)) = invoked s @ [(name, [])])))"
proof (intro conjI impI)
  show "map (\<lambda>a. map_option snd (interaction_funcs a)) ACTIONS =
     [Some False, Some False, Some False, Some False, Some False, Some True,
      Some True, Some True, Some True, Some True, Some True, Some False]"
    by (simp add: ACTIONS_def interaction_funcs_def)
  show "dom interaction_funcs = set ACTIONS"
    by (simp add: ACTIONS_def interaction_funcs_def dom_map_of_conv_image_fst)
next
  assume h: "active_status s \<and> settings s (current_interaction data s) = Some b \<and>
    interaction_funcs (Interaction b) = Some (f, flag)" and "flag"
  with action_table_cases [of "Interaction b" f flag] obtain g where g: "f = Unary g"
    "g \<in> {increase_vol, decrease_vol, increase_seek, decrease_seek, scroll_up, scroll_down}"
    by auto
  from unary_invoked [OF g(2), of "Type b" "classified data s"] obtain name where
    "invoked (g (Type b) (classified data s)) = invoked s @ [(name, [Type b])]"
    by (auto simp: classified_frame)
  with h \<open>flag\<close> g(1) show "\<exists>g name. f = Unary g \<and>
       execute_command data s = Inr (g (Type b) (classified data s)) \<and>
       invoked (g (Type b) (classified data s)) = invoked s @ [(name, [Type b])]"
    by (simp add: execute_command_live call1_def)
next
  assume h: "active_status s \<and> settings s (current_interaction data s) = Some b \<and>
    interaction_funcs (Interaction b) = Some (f, flag)" and "\<not> flag"
  with action_table_cases [of "Interaction b" f flag] obtain g where g: "f = Nullary g"
    "g \<in> {not_used, play_pause, previous, next_action, stop, mute}"
    by auto
  from nullary_invoked [OF g(2), of "classified data s"] obtain name where
    "invoked (g (classified data s)) = invoked s @ [(name, [])]"
    by (auto simp: classified_frame)
  with h \<open>\<not> flag\<close> g(1) show "\<exists>g name. f = Nullary g \<and>
       execute_command data s = Inr (g (classified data s)) \<and>
       invoked (g (classified data s)) = invoked s @ [(name, [])]"
    by (simp add: execute_command_live call0_def)
qed

text \<open>
  Two live samples with the key LSTD bound first to Volume +, whose function receives the
  Type of the binding, then to Play/Pause, whose function is called without argument.
\<close>

theorem parameterized_flag_gates_argument_witness:
  "execute_command
     \<lparr>Timestep = 1, Action = ''LS'', Gyroscope = Vec3 1 1 1, Acceleration = Vec3 0 0 0,
      Rotation = Vec3 0 5 0\<rparr>
     (toggle_activation
        (init (default_settings(''LSTD'' \<mapsto> \<lparr>Interaction = ''Volume +'', Type = ''Steps''\<rparr>)) 0)) =
   Inr (increase_vol ''Steps''
     (classified
        \<lparr>Timestep = 1, Action = ''LS'', Gyroscope = Vec3 1 1 1, Acceleration = Vec3 0 0 0,
         Rotation = Vec3 0 5 0\<rparr>
        (toggle_activation
           (init (default_settings(''LSTD'' \<mapsto> \<lparr>Interaction = ''Volume +'', Type = ''Steps''\<rparr>)) 0)))) \<and>
   invoked (increase_vol ''Steps''
     (classified
        \<lparr>Timestep = 1, Action = ''LS'', Gyroscope = Vec3 1 1 1, Acceleration = Vec3 0 0 0,
         Rotation = Vec3 0 5 0\<rparr>
        (toggle_activation
           (init (default_settings(''LSTD'' \<mapsto> \<lparr>Interaction = ''Volume +'', Type = ''Steps''\<rparr>)) 0)))) =
     [(''increase_vol'', [''Steps''])] \<and>
   execute_command
     \<lparr>Timestep = 1, Action = ''LS'', Gyroscope = Vec3 1 1 1, Acceleration = Vec3 0 0 0,
      Rotation = Vec3 0 5 0\<rparr>
     (toggle_activation
        (init (default_settings(''LSTD'' \<mapsto> \<lparr>Interaction = ''Play/Pause'', Type = ''Steps''\<rparr>)) 0)) =
   Inr (play_pause
     (classified
        \<lparr>Timestep = 1, Action = ''LS'', Gyroscope = Vec3 1 1 1, Acceleration = Vec3 0 0 0,
         Rotation = Vec3 0 5 0\<rparr>
        (toggle_activation
           (init (default_settings(''LSTD'' \<mapsto> \<lparr>Interaction = ''Play/Pause'', Type = ''Steps''\<rparr>)) 0)))) \<and>
   invoked (play_pause
     (classified
        \<lparr>Timestep = 1, Action = ''LS'', Gyroscope = Vec3 1 1 1, Acceleration = Vec3 0 0 0,
         Rotation = Vec3 0 5 0\<rparr>
        (toggle_activation
           (init (default_settings(''LSTD'' \<mapsto> \<lparr>Interaction = ''Play/Pause'', Type = ''Steps''\<rparr>)) 0)))) =
     [(''play_pause'', [])]"
proof -
  let ?d = "\<lparr>Timestep = 1, Action = ''LS'', Gyroscope = Vec3 1 1 1, Acceleration = Vec3 0 0 0,
      Rotation = Vec3 0 5 0\<rparr>"
  let ?b1 = "\<lparr>Interaction = ''Volume +'', Type = ''Steps''\<rparr>"
  let ?b2 = "\<lparr>Interaction = ''Play/Pause'', Type = ''Steps''\<rparr>"
  let ?s1 = "toggle_activation (init (default_settings(''LSTD'' \<mapsto> ?b1)) 0)"
  let ?s2 = "toggle_activation (init (default_settings(''LSTD'' \<mapsto> ?b2)) 0)"
  have a: "active_status ?s1" "active_status ?s2"
    by (simp_all add: toggle_activation_def init_def)
  have k: "current_interaction ?d ?s1 = ''LSTD''" "current_interaction ?d ?s2 = ''LSTD''"
    by (simp_all add: current_interaction_def get_tilt_kind_tilt toggle_activation_def init_def)
  have b: "settings ?s1 (current_interaction ?d ?s1) = Some ?b1"
    "settings ?s2 (current_interaction ?d ?s2) = Some ?b2"
    unfolding k by (simp_all add: toggle_activation_def init_def)
  have f: "interaction_funcs (Interaction ?b1) = Some (Unary increase_vol, True)"
    "interaction_funcs (Interaction ?b2) = Some (Nullary play_pause, False)"
    by (simp_all add: interaction_funcs_def)
  have i: "invoked ?s1 = []" "invoked ?s2 = []"
    by (simp_all add: toggle_activation_def init_def)
  have n: "invoked (increase_vol ''Steps'' (classified ?d ?s1)) = [(''increase_vol'', [''Steps''])]"
    "invoked (play_pause (classified ?d ?s2)) = [(''play_pause'', [])]"
    by (simp_all add: increase_vol_def play_pause_def classified_frame i)
  from parameterized_flag_gates_argument [of ?s1 ?d ?b1 "Unary increase_vol" True]
       parameterized_flag_gates_argument [of ?s2 ?d ?b2 "Nullary play_pause" False]
       a b f n
  show ?thesis by simp
qed

section \<open>Properties of the decoder and the ingestion loop\<close>

lemma twelve_fields:
  "fields_of ''0.5,LeftScreen,1,1,1,0,0,0,0,5,0,'' =
     [''0.5'', ''LeftScreen'', ''1'', ''1'', ''1'', ''0'', ''0'', ''0'', ''0'', ''5'', ''0'', []]"
  by (simp add: fields_of_def)

lemma decimal_float_values:
  "decimal_float ''0.5'' = Some (1 / 2)"
  "decimal_float ''0'' = Some 0"
  "decimal_float ''1'' = Some 1"
  "decimal_float ''5'' = Some 5"
  "decimal_float ''x'' = None"
  by (simp_all add: decimal_float_def unsigned_decimal_def digit_of_def)

lemma get_data_step_short:
  assumes "length (fields_of message_string) \<noteq> 12"
  shows "get_data_step pyfloat (message_string, address) s =
           Inr (if message_string = [] \<or> connected s then s
                else s\<lparr>status_var := ''Receiving Data'', client_var := address,
                       connected := True\<rparr>)"
  using assms by (simp add: get_data_step_def Let_def)

text \<open>
  Claim C9 states that a record with a field count other than 12 leaves all state
  unchanged. The connection status is written before the field count is tested: the first
  datagram, here one of three fields, switches it to Receiving Data.
\<close>

theorem short_record_changes_status_counterexample:
  "length (fields_of ''1,2,3'') \<noteq> 12 \<and>
   get_data_step decimal_float (''1,2,3'', ''10.0.0.7'') (init default_settings 0)
     \<noteq> Inr (init default_settings 0)"
proof -
  have l: "length (fields_of ''1,2,3'') \<noteq> 12" by (simp add: fields_of_def)
  have "status_var ((init default_settings 0)\<lparr>status_var := ''Receiving Data'',
          client_var := ''10.0.0.7'', connected := True\<rparr>) \<noteq> status_var (init default_settings 0)"
    by (simp add: init_def)
  then have "(init default_settings 0)\<lparr>status_var := ''Receiving Data'',
          client_var := ''10.0.0.7'', connected := True\<rparr> \<noteq> init default_settings 0"
    by metis
  with l show ?thesis by (simp add: get_data_step_short init_def)
qed

text \<open>
  Claim C9, amended. A record whose field count is not 12 raises nothing and the loop goes
  on with the next datagram; the state is unchanged except that the first non-empty
  datagram of a run of \<^verbatim>\<open>get_data\<close> sets the status to Receiving Data, stores the
  address of the sender and marks the loop as connected.
\<close>

theorem wrong_field_count_dropped:
  assumes "length (fields_of message_string) \<noteq> 12"
  shows "\<exists>s'. get_data_step pyfloat (message_string, address) s = Inr s' \<and>
              get_data_loop pyfloat ((message_string, address) # ms) s = get_data_loop pyfloat ms s' \<and>
              s' = (if message_string = [] \<or> connected s then s
                    else s\<lparr>status_var := ''Receiving Data'', client_var := address,
                           connected := True\<rparr>)"
  using assms by (simp add: get_data_step_short)

text \<open>
  A record of three fields followed by a well-formed one: the loop behaves as on the
  well-formed record alone.
\<close>

theorem wrong_field_count_dropped_witness:
  "get_data_loop decimal_float
     [(''1,2,3'', ''10.0.0.7''), (''0.5,LeftScreen,1,1,1,0,0,0,0,5,0,'', ''10.0.0.7'')]
     ((init default_settings 0)\<lparr>connected := True\<rparr>) =
   get_data_loop decimal_float
     [(''0.5,LeftScreen,1,1,1,0,0,0,0,5,0,'', ''10.0.0.7'')]
     ((init default_settings 0)\<lparr>connected := True\<rparr>)"
proof -
  have l: "length (fields_of ''1,2,3'') \<noteq> 12" by (simp add: fields_of_def)
  from wrong_field_count_dropped [OF l, of decimal_float "''10.0.0.7''"
      "(init default_settings 0)\<lparr>connected := True\<rparr>"
      "[(''0.5,LeftScreen,1,1,1,0,0,0,0,5,0,'', ''10.0.0.7'')]"]
  show ?thesis by simp
qed

text \<open>
  Claim C4 takes the record with two trailing commas. It splits into 13 fields, so the
  loop discards it: nothing is classified and the shown key stays N/A.
\<close>

theorem scenario_record_dropped_counterexample:
  "length (fields_of ''0.5,LeftScreen,1,1,1,0,0,0,0,5,0,,'') = 13 \<and>
   get_data_step decimal_float (''0.5,LeftScreen,1,1,1,0,0,0,0,5,0,,'', ''10.0.0.7'')
     (init default_settings 0) =
   Inr ((init default_settings 0)\<lparr>status_var := ''Receiving Data'', client_var := ''10.0.0.7'',
                                   connected := True\<rparr>) \<and>
   current_action_var ((init default_settings 0)\<lparr>status_var := ''Receiving Data'',
      client_var := ''10.0.0.7'', connected := True\<rparr>) = ''N/A''"
  by (simp add: get_data_step_def fields_of_def init_def)

text \<open>
  Claim C4, amended. The record with one trailing comma has 12 fields. It decodes to
  rotation (0, 5, 0); against the zero history the deltas are 0 and 5, the tilt is TD
  (down), and the key shown is LeftScreenTD.
\<close>

theorem scenario_twelve_fields:
  "parse_record decimal_float (fields_of ''0.5,LeftScreen,1,1,1,0,0,0,0,5,0,'') =
     Inr \<lparr>Timestep = 1 / 2, Action = ''LeftScreen'', Gyroscope = Vec3 1 1 1,
          Acceleration = Vec3 0 0 0, Rotation = Vec3 0 5 0\<rparr> \<and>
   vx (Vec3 0 5 0) - vx (rotation_history (init default_settings 0)) = 0 \<and>
   vy (Vec3 0 5 0) - vy (rotation_history (init default_settings 0)) = 5 \<and>
   fst (get_tilt_kind (Vec3 1 1 1) (Vec3 0 0 0) (Vec3 0 5 0) (init default_settings 0)) = ''TD'' \<and>
   map_sum id current_action_var
     (get_data_step decimal_float (''0.5,LeftScreen,1,1,1,0,0,0,0,5,0,'', ''10.0.0.7'')
        (init default_settings 0)) = Inr ''LeftScreenTD''"
proof -
  have p: "parse_record decimal_float (fields_of ''0.5,LeftScreen,1,1,1,0,0,0,0,5,0,'') =
     Inr \<lparr>Timestep = 1 / 2, Action = ''LeftScreen'', Gyroscope = Vec3 1 1 1,
          Acceleration = Vec3 0 0 0, Rotation = Vec3 0 5 0\<rparr>"
    by (simp add: twelve_fields parse_record_def numeric_fields_def decimal_float_values)
  have t: "fst (get_tilt_kind (Vec3 1 1 1) (Vec3 0 0 0) (Vec3 0 5 0) (init default_settings 0)) = ''TD''"
    by (simp add: get_tilt_kind_tilt init_def)
  have h: "rotation_history (init default_settings 0) = Vec3 0 0 0" by (simp add: init_def)
  have i: "\<not> active_status (init default_settings 0)" "\<not> test_status (init default_settings 0)"
    "\<not> connected (init default_settings 0)"
    by (simp_all add: init_def)
  have l: "length (fields_of ''0.5,LeftScreen,1,1,1,0,0,0,0,5,0,'') = 12"
    by (simp add: twelve_fields)
  have "map_sum id current_action_var
     (get_data_step decimal_float (''0.5,LeftScreen,1,1,1,0,0,0,0,5,0,'', ''10.0.0.7'')
        (init default_settings 0)) = Inr ''LeftScreenTD''"
    by (simp add: get_data_step_def Let_def l p i
          execute_command_not_live classified_frame current_interaction_def get_tilt_kind_tilt h)
  with p t h show ?thesis by simp
qed

text \<open>
  Claim C1 states that a record with an unparsable numeric field is dropped and that the
  loop continues. In the code the ValueError of \<^verbatim>\<open>float\<close> is not caught: the loop ends on
  such a record, and the well-formed record after it is never processed.
\<close>

theorem unparsable_field_ends_loop:
  "get_data decimal_float
     [(''x,LeftScreen,1,1,1,0,0,0,0,5,0,'', ''10.0.0.7''),
      (''0.5,LeftScreen,1,1,1,0,0,0,0,5,0,'', ''10.0.0.7'')]
     (init default_settings 0) = Inl ValueError"
  by (simp add: get_data_def get_data_step_def Let_def fields_of_def parse_record_def
        numeric_fields_def decimal_float_values)

section \<open>Properties of the experiment runner\<close>

lemma stored_bound:
  assumes "la = [] \<or> la \<in> dom st"
    and "\<forall>j k. arrival w j = Some k \<longrightarrow> k = [] \<or> k \<in> dom st"
  shows "stored la (arrival w n) = [] \<or> stored la (arrival w n) \<in> dom st"
  using assms by (cases "arrival w n") (auto simp: stored_def)

lemma poll_loop_returns:
  assumes "clock w (n + d) - start > 3"
    and "la = [] \<or> la \<in> dom st"
    and "\<forall>j k. arrival w j = Some k \<longrightarrow> k = [] \<or> k \<in> dom st"
  shows "\<exists>found la' m. poll_loop w st interaction start n la = Some (Inr (found, la', m)) \<and>
                         (la' = [] \<or> la' \<in> dom st)"
  using assms
proof (induction d arbitrary: n la)
  case 0
  then have "\<not> clock w n - start \<le> 3" by simp
  then have "poll_loop w st interaction start n la =
               Some (Inr (False, stored la (arrival w n), Suc n))"
    by (subst poll_loop.simps) simp
  moreover have "stored la (arrival w n) = [] \<or> stored la (arrival w n) \<in> dom st"
    by (rule stored_bound [OF 0(2,3)])
  ultimately show ?case by auto
next
  case (Suc d)
  let ?k = "stored la (arrival w n)"
  have k: "?k = [] \<or> ?k \<in> dom st" by (rule stored_bound [OF Suc.prems(2,3)])
  from Suc.prems(1) have ex: "clock w (Suc n + d) - start > 3" by simp
  have rec: "\<exists>found la' m. poll_loop w st interaction start (Suc n) [] =
                 Some (Inr (found, la', m)) \<and> (la' = [] \<or> la' \<in> dom st)"
    by (rule Suc.IH [OF ex _ Suc.prems(3)]) simp
  show ?case
  proof (cases "clock w n - start \<le> 3")
    case False
    then have "poll_loop w st interaction start n la = Some (Inr (False, ?k, Suc n))"
      by (subst poll_loop.simps) simp
    with k show ?thesis by auto
  next
    case True
    show ?thesis
    proof (cases "?k = []")
      case e: True
      with True have "poll_loop w st interaction start n la =
                        poll_loop w st interaction start (Suc n) []"
        by (subst poll_loop.simps) simp
      with rec show ?thesis by auto
    next
      case ne: False
      with k obtain b where b: "st ?k = Some b" by auto
      show ?thesis
      proof (cases "Interaction b = interaction")
        case m: True
        with True ne b have "poll_loop w st interaction start n la = Some (Inr (True, [], Suc n))"
          by (subst poll_loop.simps) simp
        then show ?thesis by auto
      next
        case nm: False
        with True ne b have "poll_loop w st interaction start n la =
                        poll_loop w st interaction start (Suc n) []"
          by (subst poll_loop.simps) simp
        with rec show ?thesis by auto
      qed
    qed
  qed
qed

lemma run_trial_returns:
  assumes "\<forall>n. \<exists>m>n. clock w m - clock w n > 3"
    and "la = [] \<or> la \<in> dom st"
    and "\<forall>j k. arrival w j = Some k \<longrightarrow> k = [] \<or> k \<in> dom st"
  shows "\<exists>result la' n'. run_trial w st mode i n la = Some (Inr (result, la', n')) \<and>
                          (la' = [] \<or> la' \<in> dom st)"
proof -
  from assms(1) obtain m where m: "m > n" "clock w m - clock w n > 3" by blast
  then have "clock w (Suc n + (m - Suc n)) - clock w n > 3" by simp
  from poll_loop_returns [OF this stored_bound [OF assms(2,3)] assms(3)]
  obtain found la1 k where
    p: "poll_loop w st (choice interaction_widgets (pick w i)) (clock w n) (Suc n)
          (stored la (arrival w n)) = Some (Inr (found, la1, k))"
    and l: "la1 = [] \<or> la1 \<in> dom st"
    by blast
  from p have "run_trial w st mode i n la =
      Some (Inr ((choice interaction_widgets (pick w i), py_round3 (clock w k - clock w n),
                  found, mode), stored la1 (arrival w k), Suc k))"
    by (simp add: run_trial_def Let_def)
  moreover have "stored la1 (arrival w k) = [] \<or> stored la1 (arrival w k) \<in> dom st"
    by (rule stored_bound [OF l assms(3)])
  ultimately show ?thesis by simp
qed

lemma trials_returns:
  assumes "\<forall>n. \<exists>m>n. clock w m - clock w n > 3"
    and "la = [] \<or> la \<in> dom st"
    and "\<forall>j k. arrival w j = Some k \<longrightarrow> k = [] \<or> k \<in> dom st"
  shows "\<exists>rows' la' n'. trials w st mode is rows n la = Some (Inr (rows', la', n')) \<and>
                         length rows' = length rows + length is"
  using assms(2)
proof (induction "is" arbitrary: rows n la)
  case Nil
  then show ?case by simp
next
  case (Cons i "is")
  from run_trial_returns [OF assms(1) Cons.prems assms(3)]
  obtain result la1 n1 where
    r: "run_trial w st mode i n la = Some (Inr (result, la1, n1))"
    and l: "la1 = [] \<or> la1 \<in> dom st"
    by blast
  from Cons.IH [OF l, of "rows @ [result]" n1] r show ?case by simp
qed

text \<open>
  Claim C5 states that every run produces ten rows. A gesture key that is not a key of the
  settings, stored in \<^verbatim>\<open>last_action\<close> while the experiment runs, makes the lookup of the
  first poll raise KeyError: the thread ends and no row is produced.
\<close>

theorem unknown_key_ends_experiment_counterexample:
  "start_experiment unknown_key_world (init default_settings 0) = Some (Inl KeyError)"
proof -
  have "poll_loop unknown_key_world default_settings
          (choice interaction_widgets (pick unknown_key_world 0))
          (clock unknown_key_world 0) (Suc 0) (stored [] (arrival unknown_key_world 0)) =
        Some (Inl KeyError)"
    by (subst poll_loop.simps)
       (simp add: unknown_key_world_def steady_clock_def unknown_key_arrival_def stored_def
          default_settings_def)
  then have "run_trial unknown_key_world default_settings 1 0 0 [] = Some (Inl KeyError)"
    by (simp add: run_trial_def Let_def)
  then show ?thesis
    by (simp add: start_experiment_def init_def upt_rec [of 0 10])
qed

text \<open>
  Claim C5, amended. A run of \<^verbatim>\<open>start_experiment\<close> in which every gesture key that
  reaches \<^verbatim>\<open>last_action\<close> is a key of the settings returns exactly ten rows, one per
  trial, in either mode and whatever the trials find. The run is shown to return, given that
  the clock passes the three seconds of every trial.
\<close>

theorem experiment_produces_ten_rows:
  assumes "\<forall>n. \<exists>m>n. clock w m - clock w n > 3"
    and "last_action s = [] \<or> last_action s \<in> dom (settings s)"
    and "\<forall>j k. arrival w j = Some k \<longrightarrow> k = [] \<or> k \<in> dom (settings s)"
  shows "\<exists>rows s'. start_experiment w s = Some (Inr (rows, s')) \<and> length rows = 10"
proof -
  from trials_returns [OF assms, of "interaction_mode s" "[0..<10]" "[]" 0]
  obtain rows la n where
    "trials w (settings s) (interaction_mode s) [0..<10] [] 0 (last_action s) =
       Some (Inr (rows, la, n))"
    and "length rows = 10"
    by auto
  then show ?thesis by (simp add: start_experiment_def)
qed

text \<open>
  A clock that advances by a twentieth of a second per reading, one gesture during the
  first trial, the default settings and the interactive mode.
\<close>

theorem experiment_produces_ten_rows_witness:
  "\<exists>rows s'. start_experiment
       \<lparr>clock = (\<lambda>k. real k / 20), arrival = (\<lambda>k. if k = 7 then Some ''LSTD'' else None),
        pick = (\<lambda>i. i)\<rparr>
       ((init default_settings 0)\<lparr>interaction_mode := 2\<rparr>) = Some (Inr (rows, s')) \<and>
     length rows = 10"
proof (rule experiment_produces_ten_rows)
  show "\<forall>n. \<exists>m>n. clock \<lparr>clock = (\<lambda>k. real k / 20),
           arrival = (\<lambda>k. if k = 7 then Some ''LSTD'' else None), pick = (\<lambda>i. i)\<rparr> m -
         clock \<lparr>clock = (\<lambda>k. real k / 20),
           arrival = (\<lambda>k. if k = 7 then Some ''LSTD'' else None), pick = (\<lambda>i. i)\<rparr> n > 3"
  proof
    fix n :: nat
    have "n + 61 > n \<and> real (n + 61) / 20 - real n / 20 > 3" by (simp add: field_simps)
    then show "\<exists>m>n. clock \<lparr>clock = (\<lambda>k. real k / 20),
           arrival = (\<lambda>k. if k = 7 then Some ''LSTD'' else None), pick = (\<lambda>i. i)\<rparr> m -
         clock \<lparr>clock = (\<lambda>k. real k / 20),
           arrival = (\<lambda>k. if k = 7 then Some ''LSTD'' else None), pick = (\<lambda>i. i)\<rparr> n > 3"
      by (intro exI [of _ "n + 61"]) simp
  qed
qed (simp_all add: init_def default_settings_def)










end
